theory Spec2Isabelle
  imports Complex_Main "HOL-Library.Monad_Syntax"
begin

section \<open>The PostGIS demo notebook of intake-postgres\<close>

text \<open>
  The notebook \<^verbatim>\<open>examples/PostGIS Demo.ipynb\<close> has three code cells with behaviour
  of their own: the download cell (the Fetcher), the cell that fills the table
  \<^verbatim>\<open>fortune500\<close> (the Loader) and the cell with the Mercator helpers (the Projector).
  Each is embedded below, the Projector first.
\<close>

section \<open>Projector\<close>

subsection \<open>Numbers\<close>

text \<open>
  The helpers compute with numpy's float64. Here a finite float is an exact \<^typ>\<open>real\<close>
  (rounding, overflow and signed zeros are left out), and a numpy operation whose result
  is \<^verbatim>\<open>nan\<close> or \<^verbatim>\<open>\<plusminus>inf\<close> returns \<^term>\<open>None\<close>. numpy does
  not raise on such an operation: it warns and carries the special value on, and every
  later operation of \<^verbatim>\<open>lat_to_mercy\<close> keeps a special value special (its only divisor
  is the finite input \<^verbatim>\<open>lon\<close>), so \<^term>\<open>None\<close> is absorbing, which is what the
  monadic bind does.

  HOL's own \<^term>\<open>ln\<close>, \<^term>\<open>tan\<close> and division are total: \<^term>\<open>ln (0::real) = 0\<close>,
  \<^term>\<open>ln (- x::real) = ln x\<close>, \<^term>\<open>x / (0::real) = 0\<close>. The definitions below write out
  where numpy leaves the finite numbers instead.
\<close>

type_synonym np_float = "real option"

definition np_radians :: "real \<Rightarrow> real" where
  \<comment> \<open>\<^verbatim>\<open>np.radians(d)\<close>: degrees to radians\<close>
  "np_radians d = d * (pi / 180)"

definition np_tan :: "real \<Rightarrow> np_float" where
  \<comment> \<open>\<^verbatim>\<open>np.tan(t)\<close>; over the reals the tangent has no value at its poles (a float64
      is never exactly one of them, and numpy returns a very large finite number nearby)\<close>
  "np_tan t = (if cos t = 0 then None else Some (tan t))"

definition np_log :: "real \<Rightarrow> np_float" where
  \<comment> \<open>\<^verbatim>\<open>np.log(a)\<close>: \<^verbatim>\<open>-inf\<close> at 0 and \<^verbatim>\<open>nan\<close> below\<close>
  "np_log a = (if a \<le> 0 then None else Some (ln a))"

definition np_true_divide :: "real \<Rightarrow> real \<Rightarrow> np_float" where
  \<comment> \<open>\<^verbatim>\<open>a / b\<close> on float64: \<^verbatim>\<open>nan\<close> or \<^verbatim>\<open>\<plusminus>inf\<close> when the divisor is 0\<close>
  "np_true_divide a b = (if b = 0 then None else Some (a / b))"

subsection \<open>The helpers\<close>

definition EARTH_RADIUS :: real where
  \<comment> \<open>Earth's radius, in meters\<close>
  "EARTH_RADIUS = 6378137"

definition lon_to_mercx :: "real \<Rightarrow> real" where
  "lon_to_mercx lon = (let x = EARTH_RADIUS * np_radians lon in x)"

definition lat_to_mercy :: "real \<Rightarrow> real \<Rightarrow> np_float" where
  "lat_to_mercy lon lat =
     (let x = lon_to_mercx lon in
      do {
        t \<leftarrow> np_tan (pi / 4 + lat * (pi / 180) / 2);
        l \<leftarrow> np_log t;
        y \<leftarrow> np_true_divide (180 / pi * l * x) lon;
        Some y
      })"

text \<open>
  \<^verbatim>\<open>wkt.loads\<close> is shapely's parser of well-known text; it is a parameter here, and
  what it returns is a point with the attributes \<^verbatim>\<open>x\<close> and \<^verbatim>\<open>y\<close>.
\<close>

record point =
  px :: real
  py :: real

definition wkt_to_x :: "(string \<Rightarrow> point) \<Rightarrow> string \<Rightarrow> real" where
  "wkt_to_x wkt_loads pt = lon_to_mercx (px (wkt_loads pt))"

definition wkt_to_y :: "(string \<Rightarrow> point) \<Rightarrow> string \<Rightarrow> np_float" where
  "wkt_to_y wkt_loads pt = (let p = wkt_loads pt in lat_to_mercy (px p) (py p))"


subsection \<open>The helpers with float64 rounding\<close>













section \<open>Fetcher\<close>

text \<open>
  The download cell reads and writes the local file system, asks the network once and
  prints. The part of the machine it touches is the record \<open>world\<close>; what the machine
  answers (whether \<^verbatim>\<open>requests.get\<close> raises, whether opening or writing the file
  raises) is the record \<open>env\<close>, a parameter of the run.
\<close>

type_synonym bytes = string

record response =
  content :: bytes

datatype write_result =
    OpenRaises           \<comment> \<open>\<^verbatim>\<open>open(fpath, 'wb')\<close> raised: nothing was created\<close>
  | WriteRaises bytes    \<comment> \<open>the file was opened (created or truncated) and \<^verbatim>\<open>fp.write\<close>
                             raised; the argument is what the file holds afterwards\<close>
  | Written              \<comment> \<open>the whole body reached the file\<close>

record env =
  requests_get :: "string \<Rightarrow> response option"   \<comment> \<open>\<^term>\<open>None\<close>: \<^verbatim>\<open>requests.get\<close> raised\<close>
  write_file :: "string \<Rightarrow> bytes \<Rightarrow> write_result"

record world =
  files :: "string \<rightharpoonup> bytes"   \<comment> \<open>the regular files, what \<^verbatim>\<open>os.path.isfile\<close> sees\<close>
  requested :: "string list"     \<comment> \<open>every URL handed to \<^verbatim>\<open>requests.get\<close>, oldest first\<close>
  stdout :: "string list"        \<comment> \<open>the lines printed, oldest first\<close>

datatype fetch_error =
    DownloadError   \<comment> \<open>\<^verbatim>\<open>ValueError('Download error. Check internet connection and URL.')\<close>\<close>
  | WriteError      \<comment> \<open>\<^verbatim>\<open>ValueError('File write error. Check destination file path and permissions')\<close>\<close>

datatype 'e outcome = Completed | Raised 'e

definition url :: string where
  "url = ''https://hifld-dhs-gii.opendata.arcgis.com/datasets/e277657582f74ed78dc2a503eae7fa2e_0.geojson''"

definition fpath :: string where
  "fpath = ''fortune_500.geojson''"

definition py_repr :: "string \<Rightarrow> string" where
  \<comment> \<open>\<^verbatim>\<open>'{!r}'.format(s)\<close> for a string without quotes, backslashes or control characters\<close>
  "py_repr s = [CHR 0x27] @ s @ [CHR 0x27]"

definition print :: "string \<Rightarrow> world \<Rightarrow> world" where
  "print line w = w\<lparr>stdout := stdout w @ [line]\<rparr>"

definition isfile :: "world \<Rightarrow> string \<Rightarrow> bool" where
  "isfile w p = (case files w p of None \<Rightarrow> False | Some _ \<Rightarrow> True)"

definition fetcher :: "env \<Rightarrow> world \<Rightarrow> fetch_error outcome \<times> world" where
  "fetcher e w =
     (if isfile w fpath then
        (Completed, print (py_repr fpath @ '' already exists: skipping download.'' @ [CHR 0x0A]) w)
      else
        let w1 = print (''Downloading data from '' @ py_repr url @ ''...'') w;
            w2 = w1\<lparr>requested := requested w1 @ [url]\<rparr>
        in case requests_get e url of
             None \<Rightarrow> (Raised DownloadError, w2)
           | Some response \<Rightarrow>
               (case write_file e fpath (content response) of
                  OpenRaises \<Rightarrow> (Raised WriteError, w2)
                | WriteRaises partial \<Rightarrow>
                    (Raised WriteError,
                     (print ''Writing data...'' w2)\<lparr>files := (files w2)(fpath \<mapsto> partial)\<rparr>)
                | Written \<Rightarrow>
                    (Completed,
                     print (''Success: '' @ py_repr fpath @ [CHR 0x0A])
                       ((print ''Writing data...'' w2)
                          \<lparr>files := (files w2)(fpath \<mapsto> content response)\<rparr>))))"

section \<open>Loader\<close>

subsection \<open>The parsed document\<close>

text \<open>
  \<^verbatim>\<open>json.load\<close> gives the feature collection; the cell walks \<^verbatim>\<open>data['features']\<close>.
  A feature is taken with the shape of a GeoJSON feature: \<^verbatim>\<open>geometry.coordinates\<close> is
  a list of numbers and \<^verbatim>\<open>properties\<close> a dictionary. The number type \<open>'n\<close> and the
  type \<open>'v\<close> of property values are left open; \<open>py_format\<close>, the text that
  \<^verbatim>\<open>'{}'.format\<close> gives for a number, is a parameter.
\<close>

record ('n, 'v) feature =
  coordinates :: "'n list"
  properties :: "string \<rightharpoonup> 'v"

subsection \<open>The store\<close>

text \<open>
  A table is its column declarations and its rows in insertion order. A row holds one
  cell per column. The three statements the cell sends are the constructors of
  \<open>statement\<close>; \<open>execute\<close> is what the driver and PostgreSQL do with each.

  Not every tuple of values is taken: psycopg2 raises on a string parameter that contains
  a NUL character before anything is sent, and the server raises on a text that
  \<^verbatim>\<open>St_GeomFromText\<close> cannot read as a point of SRID 4326. Which tuples are taken is
  the parameter \<open>accepts\<close>; \<open>psycopg2_adapts\<close> below is the driver's part of it for
  string values.
\<close>

datatype 'v cell =
    GeomFromText string   \<comment> \<open>\<^verbatim>\<open>St_GeomFromText(%s)\<close> of the bound text\<close>
  | Param 'v              \<comment> \<open>a bound parameter \<^verbatim>\<open>%s\<close>\<close>
  | Null                  \<comment> \<open>a column the INSERT gave no value for\<close>

record 'v table =
  columns :: "(string \<times> string) list"   \<comment> \<open>name and declared type\<close>
  rows :: "'v cell list list"

type_synonym 'v store = "string \<rightharpoonup> 'v table"

datatype sql_error = DuplicateTable | UndefinedTable | TooManyValues | ValueRefused

datatype 'v statement =
    DropTableIfExists string
  | CreateTable string "(string \<times> string) list"
  | InsertValues string "'v cell list"

fun execute ::
  "('v cell list \<Rightarrow> bool) \<Rightarrow> 'v statement \<Rightarrow> 'v store \<Rightarrow> sql_error + 'v store" where
  "execute accepts (DropTableIfExists t) s = Inr (s(t := None))"
| "execute accepts (CreateTable t cols) s =
     (case s t of
        Some _ \<Rightarrow> Inl DuplicateTable
      | None \<Rightarrow> Inr (s(t \<mapsto> \<lparr>columns = cols, rows = []\<rparr>)))"
| "execute accepts (InsertValues t vs) s =
     (if \<not> accepts vs then Inl ValueRefused
      else case s t of
        None \<Rightarrow> Inl UndefinedTable
      | Some tbl \<Rightarrow>
          if length vs > length (columns tbl) then Inl TooManyValues
          else Inr (s(t \<mapsto> tbl\<lparr>rows := rows tbl
                      @ [vs @ replicate (length (columns tbl) - length vs) Null]\<rparr>)))"

definition text_without_nul :: "string cell \<Rightarrow> bool" where
  "text_without_nul c =
     (case c of GeomFromText s \<Rightarrow> CHR 0x00 \<notin> set s | Param s \<Rightarrow> CHR 0x00 \<notin> set s | Null \<Rightarrow> True)"

definition psycopg2_adapts :: "string cell list \<Rightarrow> bool" where
  \<comment> \<open>psycopg2 on a \<^verbatim>\<open>str\<close> parameter with NUL in it:
      \<^verbatim>\<open>ValueError: A string literal cannot contain NUL (0x00) characters.\<close>\<close>
  "psycopg2_adapts vs = list_all text_without_nul vs"

subsection \<open>The cell\<close>

datatype load_error =
    KeyError string       \<comment> \<open>a property the feature does not have\<close>
  | UnpackError           \<comment> \<open>\<^verbatim>\<open>lon, lat = ...\<close> on a list that has not two elements\<close>
  | StoreError sql_error  \<comment> \<open>raised by \<^verbatim>\<open>cursor.execute\<close>\<close>

definition and_then :: "'e + 'a \<Rightarrow> ('a \<Rightarrow> 'e + 'b) \<Rightarrow> 'e + 'b" where
  \<comment> \<open>sequencing: an exception ends the run of the statements after it\<close>
  "and_then r k = (case r of Inl e \<Rightarrow> Inl e | Inr a \<Rightarrow> k a)"

definition getitem :: "(string \<rightharpoonup> 'v) \<Rightarrow> string \<Rightarrow> load_error + 'v" where
  \<comment> \<open>\<^verbatim>\<open>props[key]\<close>\<close>
  "getitem props key = (case props key of None \<Rightarrow> Inl (KeyError key) | Some v \<Rightarrow> Inr v)"

definition cursor_execute ::
  "('v cell list \<Rightarrow> bool) \<Rightarrow> 'v statement \<Rightarrow> 'v store \<Rightarrow> load_error + 'v store" where
  "cursor_execute accepts st s =
     (case execute accepts st s of Inl e \<Rightarrow> Inl (StoreError e) | Inr s' \<Rightarrow> Inr s')"

definition fortune500_columns :: "(string \<times> string) list" where
  "fortune500_columns =
     [(''location'', ''geometry(point, 4326)''), (''name'', ''text''), (''address'', ''text''),
      (''city'', ''text''), (''state'', ''text''), (''zip_code'', ''text''),
      (''county'', ''text''), (''directions'', ''text'')]"

definition insert_params :: "('n \<Rightarrow> string) \<Rightarrow> ('n, 'v) feature \<Rightarrow> load_error + 'v cell list" where
  \<comment> \<open>the body of the loop up to the tuple bound to the INSERT\<close>
  "insert_params py_format f =
     (case coordinates f of
        [lon, lat] \<Rightarrow>
          (let props = properties f in
           and_then (getitem props ''ZIP'') (\<lambda>zip_code.
           and_then (getitem props ''STATE'') (\<lambda>state.
           and_then (getitem props ''NAME'') (\<lambda>name.
           and_then (getitem props ''ADDRESS'') (\<lambda>address.
           and_then (getitem props ''COUNTY'') (\<lambda>county.
           and_then (getitem props ''CITY'') (\<lambda>city.
           and_then (getitem props ''DIRECTIONS'') (\<lambda>directions.
             Inr [GeomFromText (''SRID=4326;POINT('' @ py_format lon @ '' '' @ py_format lat @ '')''),
                  Param name, Param address, Param city, Param state, Param zip_code,
                  Param county, Param directions]))))))))
      | _ \<Rightarrow> Inl UnpackError)"

fun insert_features ::
  "('v cell list \<Rightarrow> bool) \<Rightarrow> ('n \<Rightarrow> string) \<Rightarrow> ('n, 'v) feature list \<Rightarrow> 'v store
     \<Rightarrow> load_error + 'v store" where
  "insert_features accepts py_format [] s = Inr s"
| "insert_features accepts py_format (f # fs) s =
     and_then (insert_params py_format f) (\<lambda>params.
     and_then (cursor_execute accepts (InsertValues ''fortune500'' params) s) (\<lambda>s'.
       insert_features accepts py_format fs s'))"

definition loader_statements ::
  "('v cell list \<Rightarrow> bool) \<Rightarrow> ('n \<Rightarrow> string) \<Rightarrow> ('n, 'v) feature list \<Rightarrow> 'v store
     \<Rightarrow> load_error + 'v store" where
  \<comment> \<open>everything between \<^verbatim>\<open>conn.cursor()\<close> and \<^verbatim>\<open>conn.commit()\<close>\<close>
  "loader_statements accepts py_format features s =
     and_then (cursor_execute accepts (DropTableIfExists ''fortune500'') s) (\<lambda>s1.
     and_then (cursor_execute accepts (CreateTable ''fortune500'' fortune500_columns) s1) (\<lambda>s2.
       insert_features accepts py_format features s2))"

text \<open>
  The connection is not in autocommit mode: the statements run in one transaction, and
  \<^verbatim>\<open>conn.commit()\<close> is the last thing but one the cell does. An exception before it
  leaves the cell with nothing committed, so the database is the one before the run.
  Failures of the connection itself are not modelled.
\<close>

definition loader ::
  "('v cell list \<Rightarrow> bool) \<Rightarrow> ('n \<Rightarrow> string) \<Rightarrow> ('n, 'v) feature list \<Rightarrow> 'v store
     \<Rightarrow> load_error outcome \<times> 'v store" where
  "loader accepts py_format features db =
     (case loader_statements accepts py_format features db of
        Inl e \<Rightarrow> (Raised e, db)
      | Inr db' \<Rightarrow> (Completed, db'))"

definition geo_record :: "('n, 'v) feature \<Rightarrow> bool" where
  \<comment> \<open>a feature with a coordinate pair and the seven properties\<close>
  "geo_record f \<longleftrightarrow>
     length (coordinates f) = 2 \<and>
     list_all (\<lambda>k. properties f k \<noteq> None)
       [''ZIP'', ''STATE'', ''NAME'', ''ADDRESS'', ''COUNTY'', ''CITY'', ''DIRECTIONS'']"

definition column_value :: "'v table \<Rightarrow> nat \<Rightarrow> string \<Rightarrow> 'v cell option" where
  \<comment> \<open>the cell of row \<open>i\<close> under the column named \<open>c\<close>\<close>
  "column_value t i c =
     (if i < length (rows t) then map_of (zip (map fst (columns t)) (rows t ! i)) c else None)"

section \<open>Sample data\<close>

text \<open>
  Two features of the shape the Fortune 500 file has, with their numbers kept as the text
  Python prints for them (so \<open>py_format\<close> is the identity on them), the rows the Loader
  makes of them, and a database that already holds a table \<^verbatim>\<open>fortune500\<close> of
  another shape.
\<close>

definition chicago :: "(string, string) feature" where
  "chicago =
     \<lparr>coordinates = [''-87.6298'', ''41.8781''],
      properties = [''NAME'' \<mapsto> ''BOEING'', ''ADDRESS'' \<mapsto> ''100 N RIVERSIDE PLZ'',
                    ''CITY'' \<mapsto> ''CHICAGO'', ''STATE'' \<mapsto> ''IL'', ''ZIP'' \<mapsto> ''60606'',
                    ''COUNTY'' \<mapsto> ''COOK'', ''DIRECTIONS'' \<mapsto> ''NOT AVAILABLE'']\<rparr>"

definition bentonville :: "(string, string) feature" where
  "bentonville =
     \<lparr>coordinates = [''-94.2088'', ''36.3729''],
      properties = [''ZIP'' \<mapsto> ''72716'', ''STATE'' \<mapsto> ''AR'', ''NAME'' \<mapsto> ''WALMART'',
                    ''ADDRESS'' \<mapsto> ''702 SW 8TH ST'', ''COUNTY'' \<mapsto> ''BENTON'',
                    ''CITY'' \<mapsto> ''BENTONVILLE'', ''DIRECTIONS'' \<mapsto> ''NOT AVAILABLE'']\<rparr>"

definition chicago_row :: "string cell list" where
  "chicago_row =
     [GeomFromText ''SRID=4326;POINT(-87.6298 41.8781)'', Param ''BOEING'',
      Param ''100 N RIVERSIDE PLZ'', Param ''CHICAGO'', Param ''IL'', Param ''60606'',
      Param ''COOK'', Param ''NOT AVAILABLE'']"

definition bentonville_row :: "string cell list" where
  "bentonville_row =
     [GeomFromText ''SRID=4326;POINT(-94.2088 36.3729)'', Param ''WALMART'',
      Param ''702 SW 8TH ST'', Param ''BENTONVILLE'', Param ''AR'', Param ''72716'',
      Param ''BENTON'', Param ''NOT AVAILABLE'']"

definition chicago_nul :: "(string, string) feature" where
  \<comment> \<open>the same feature with a NUL character in its name\<close>
  "chicago_nul =
     chicago\<lparr>properties := (properties chicago)(''NAME'' \<mapsto> ''BOE'' @ [CHR 0x00] @ ''ING'')\<rparr>"

definition stale_db :: "string store" where
  "stale_db = [''fortune500'' \<mapsto> \<lparr>columns = [(''name'', ''text'')], rows = [[Param ''OLD'']]\<rparr>]"

definition loaded_db :: "string store" where
  "loaded_db = [''fortune500'' \<mapsto>
                  \<lparr>columns = fortune500_columns, rows = [chicago_row, bentonville_row]\<rparr>]"

section \<open>Facts about the Projector\<close>

text \<open>
  The argument of the tangent, \<open>\<pi>/4 + lat\<degree>/2\<close>, lies strictly between \<open>0\<close> and \<open>\<pi>/2\<close>
  for a latitude strictly between \<open>-90\<close> and \<open>90\<close> degrees; there the tangent is defined
  and positive, so the logarithm is defined too.
\<close>

lemma mercy_arg_range:
  assumes "- 90 < lat" "lat < 90"
  shows "0 < pi / 4 + lat * (pi / 180) / 2" "pi / 4 + lat * (pi / 180) / 2 < pi / 2"
proof -
  have "pi / 4 + lat * (pi / 180) / 2 = pi * ((90 + lat) / 360)" by (simp add: field_simps)
  moreover have "0 < pi * ((90 + lat) / 360)" using assms by simp
  ultimately show "0 < pi / 4 + lat * (pi / 180) / 2" by simp
  have "pi / 2 - (pi / 4 + lat * (pi / 180) / 2) = pi * ((90 - lat) / 360)" by (simp add: field_simps)
  moreover have "0 < pi * ((90 - lat) / 360)" using assms by simp
  ultimately show "pi / 4 + lat * (pi / 180) / 2 < pi / 2" by linarith
qed

lemma np_tan_in_range:
  assumes "0 < t" "t < pi / 2"
  shows "np_tan t = Some (tan t)" "0 < tan t"
proof -
  have "0 < cos t" using assms by (simp add: cos_gt_zero)
  then show "np_tan t = Some (tan t)" by (simp add: np_tan_def)
  show "0 < tan t" using assms by (rule tan_gt_zero)
qed

lemma lat_to_mercy_value:
  assumes "lon \<noteq> 0" "- 90 < lat" "lat < 90"
  shows "lat_to_mercy lon lat = Some (EARTH_RADIUS * ln (tan (pi / 4 + lat * (pi / 180) / 2)))"
proof -
  define t where "t = pi / 4 + lat * (pi / 180) / 2"
  have r: "0 < t" "t < pi / 2" using mercy_arg_range [OF assms(2,3)] by (simp_all add: t_def)
  have tn: "np_tan t = Some (tan t)" and p: "0 < tan t" using np_tan_in_range [OF r] by simp_all
  have l: "np_log (tan t) = Some (ln (tan t))" using p by (simp add: np_log_def)
  have d: "np_true_divide (180 / pi * ln (tan t) * (EARTH_RADIUS * (lon * (pi / 180)))) lon
           = Some (EARTH_RADIUS * ln (tan t))"
    using assms(1) by (simp add: np_true_divide_def field_simps)
  have "lat_to_mercy lon lat =
        np_tan t \<bind> (\<lambda>a. np_log a \<bind> (\<lambda>l.
          np_true_divide (180 / pi * l * (EARTH_RADIUS * (lon * (pi / 180)))) lon \<bind> Some))"
    by (simp only: lat_to_mercy_def lon_to_mercx_def np_radians_def Let_def t_def)
  also have "\<dots> = Some (EARTH_RADIUS * ln (tan t))"
    by (simp only: tn l d Option.bind.simps)
  finally show ?thesis by (simp only: t_def)
qed

lemma lat_to_mercy_zero_lon: "lat_to_mercy 0 lat = None"
  by (simp add: lat_to_mercy_def np_true_divide_def split: Option.bind_split)

lemma equator_maps_to_zero: "lon \<noteq> 0 \<Longrightarrow> lat_to_mercy lon 0 = Some 0"
  using lat_to_mercy_value [of lon 0] by (simp add: tan_45)













section \<open>Facts about the Loader\<close>

text \<open>
  A run of the statements succeeds exactly when every feature yields its parameter tuple,
  and then the table holds these tuples, one per feature, in the order of the features.
\<close>

lemma and_then_Inr: "and_then r k = Inr b \<longleftrightarrow> (\<exists>a. r = Inr a \<and> k a = Inr b)"
  by (cases r) (simp_all add: and_then_def)

lemma getitem_Inr: "getitem props key = Inr v \<longleftrightarrow> props key = Some v"
  by (simp add: getitem_def split: option.splits)

lemma insert_params_Inr:
  "insert_params fmt f = Inr ps \<longleftrightarrow>
     (\<exists>lon lat zip_code state name address county city directions.
        coordinates f = [lon, lat] \<and>
        properties f ''ZIP'' = Some zip_code \<and> properties f ''STATE'' = Some state \<and>
        properties f ''NAME'' = Some name \<and> properties f ''ADDRESS'' = Some address \<and>
        properties f ''COUNTY'' = Some county \<and> properties f ''CITY'' = Some city \<and>
        properties f ''DIRECTIONS'' = Some directions \<and>
        ps = [GeomFromText (''SRID=4326;POINT('' @ fmt lon @ '' '' @ fmt lat @ '')''),
              Param name, Param address, Param city, Param state, Param zip_code,
              Param county, Param directions])"
proof (cases "coordinates f")
  case Nil
  then show ?thesis by (simp add: insert_params_def)
next
  case (Cons lon r1)
  note c1 = this
  show ?thesis
  proof (cases r1)
    case Nil
    then show ?thesis using c1 by (simp add: insert_params_def)
  next
    case (Cons lat r2)
    note c2 = this
    show ?thesis
    proof (cases r2)
      case Nil
      have "insert_params fmt f = Inr ps \<longleftrightarrow>
        (\<exists>zip_code state name address county city directions.
        properties f ''ZIP'' = Some zip_code \<and> properties f ''STATE'' = Some state \<and>
        properties f ''NAME'' = Some name \<and> properties f ''ADDRESS'' = Some address \<and>
        properties f ''COUNTY'' = Some county \<and> properties f ''CITY'' = Some city \<and>
        properties f ''DIRECTIONS'' = Some directions \<and>
        ps = [GeomFromText (''SRID=4326;POINT('' @ fmt lon @ '' '' @ fmt lat @ '')''),
              Param name, Param address, Param city, Param state, Param zip_code,
              Param county, Param directions])"
        unfolding insert_params_def c1 c2 Nil list.case Let_def and_then_Inr getitem_Inr
        by (simp only: sum.inject) blast
      then show ?thesis using c1 c2 Nil by simp
    next
      case (Cons a r3)
      then show ?thesis using c1 c2 by (simp add: insert_params_def)
    qed
  qed
qed

lemma insert_params_length: "insert_params fmt f = Inr ps \<Longrightarrow> length ps = 8"
  by (auto simp add: insert_params_Inr)

lemma length_two: "length xs = 2 \<longleftrightarrow> (\<exists>a b. xs = [a, b])"
  by (cases xs; cases "tl xs"; cases "tl (tl xs)") auto

lemma insert_params_geo_record: "geo_record f \<longleftrightarrow> (\<exists>ps. insert_params fmt f = Inr ps)"
proof -
  have "geo_record f \<longleftrightarrow>
     (\<exists>lon lat. coordinates f = [lon, lat]) \<and>
     (\<exists>z. properties f ''ZIP'' = Some z) \<and> (\<exists>z. properties f ''STATE'' = Some z) \<and>
     (\<exists>z. properties f ''NAME'' = Some z) \<and> (\<exists>z. properties f ''ADDRESS'' = Some z) \<and>
     (\<exists>z. properties f ''COUNTY'' = Some z) \<and> (\<exists>z. properties f ''CITY'' = Some z) \<and>
     (\<exists>z. properties f ''DIRECTIONS'' = Some z)"
    unfolding geo_record_def length_two by (simp only: list.pred_inject not_None_eq simp_thms)
  also have "\<dots> \<longleftrightarrow> (\<exists>ps. insert_params fmt f = Inr ps)"
    unfolding insert_params_Inr by blast
  finally show ?thesis .
qed

lemma insert_features_step:
  assumes "insert_params fmt f = Inr ps" "accepts ps"
    "s ''fortune500'' = Some t" "length (columns t) = 8"
  shows "insert_features accepts fmt (f # fs) s =
         insert_features accepts fmt fs (s(''fortune500'' \<mapsto> t\<lparr>rows := rows t @ [ps]\<rparr>))"
proof -
  have len: "length ps = 8" using assms(1) by (rule insert_params_length)
  have "cursor_execute accepts (InsertValues ''fortune500'' ps) s
        = Inr (s(''fortune500'' \<mapsto> t\<lparr>rows := rows t @ [ps]\<rparr>))"
    using assms(2,3,4) len by (simp add: cursor_execute_def)
  then show ?thesis using assms(1) by (simp add: and_then_def)
qed

lemma insert_features_refused:
  assumes "insert_params fmt f = Inr ps" "\<not> accepts ps"
  shows "insert_features accepts fmt (f # fs) s = Inl (StoreError ValueRefused)"
  using assms by (simp add: and_then_def cursor_execute_def)

lemma map_Inr_Cons:
  assumes "g f = Inr ps"
  shows "(\<exists>rs'. map g (f # fs) = map Inr rs' \<and> Q rs')
         \<longleftrightarrow> (\<exists>rs. map g fs = map Inr rs \<and> Q (ps # rs))"
proof
  assume "\<exists>rs'. map g (f # fs) = map Inr rs' \<and> Q rs'"
  then obtain rs' where h: "map g (f # fs) = map Inr rs'" "Q rs'" by blast
  then obtain r rs where r: "rs' = r # rs" by (cases rs') auto
  with h assms have "r = ps" "map g fs = map Inr rs" by simp_all
  with h r show "\<exists>rs. map g fs = map Inr rs \<and> Q (ps # rs)" by blast
next
  assume "\<exists>rs. map g fs = map Inr rs \<and> Q (ps # rs)"
  then obtain rs where "map g fs = map Inr rs" "Q (ps # rs)" by blast
  then have "map g (f # fs) = map Inr (ps # rs) \<and> Q (ps # rs)"
    using assms by simp
  then show "\<exists>rs'. map g (f # fs) = map Inr rs' \<and> Q rs'" by blast
qed

lemma insert_features_Inr:
  assumes "s ''fortune500'' = Some t" "length (columns t) = 8"
  shows "insert_features accepts fmt fs s = Inr s' \<longleftrightarrow>
         (\<exists>rs. map (insert_params fmt) fs = map Inr rs \<and>
               (list_all accepts rs \<and> s' = s(''fortune500'' \<mapsto> t\<lparr>rows := rows t @ rs\<rparr>)))"
  using assms
proof (induction fs arbitrary: s t)
  case Nil
  have e: "s(''fortune500'' \<mapsto> t\<lparr>rows := rows t @ []\<rparr>) = s"
    using Nil(1) by (simp add: fun_upd_idem)
  show ?case
  proof
    assume "insert_features accepts fmt [] s = Inr s'"
    then have "s' = s" by simp
    then have "map (insert_params fmt) [] = map Inr [] \<and>
               (list_all accepts [] \<and> s' = s(''fortune500'' \<mapsto> t\<lparr>rows := rows t @ []\<rparr>))"
      by (simp only: e list.map list.pred_inject simp_thms)
    then show "\<exists>rs. map (insert_params fmt) [] = map Inr rs \<and>
               (list_all accepts rs \<and> s' = s(''fortune500'' \<mapsto> t\<lparr>rows := rows t @ rs\<rparr>))" ..
  next
    assume "\<exists>rs. map (insert_params fmt) [] = map Inr rs \<and>
               (list_all accepts rs \<and> s' = s(''fortune500'' \<mapsto> t\<lparr>rows := rows t @ rs\<rparr>))"
    then obtain rs where h: "map (insert_params fmt) [] = map Inr rs"
      "s' = s(''fortune500'' \<mapsto> t\<lparr>rows := rows t @ rs\<rparr>)" by blast
    from h(1) have "rs = []" by simp
    with h(2) have "s' = s" by (simp only: e)
    then show "insert_features accepts fmt [] s = Inr s'" by simp
  qed
next
  case (Cons f fs)
  show ?case
  proof (cases "insert_params fmt f")
    case (Inl e)
    have "insert_features accepts fmt (f # fs) s = Inl e" using Inl by (simp add: and_then_def)
    moreover have "\<not> (\<exists>rs. map (insert_params fmt) (f # fs) = map Inr rs)"
      using Inl by (auto simp add: Cons_eq_map_conv)
    ultimately show ?thesis by simp
  next
    case (Inr ps)
    note cons = map_Inr_Cons [of "insert_params fmt", OF Inr, of fs
        "\<lambda>rs'. list_all accepts rs' \<and> s' = s(''fortune500'' \<mapsto> t\<lparr>rows := rows t @ rs'\<rparr>)"]
    show ?thesis
    proof (cases "accepts ps")
      case False
      have "insert_features accepts fmt (f # fs) s = Inl (StoreError ValueRefused)"
        using Inr False by (rule insert_features_refused)
      then show ?thesis unfolding cons using False by simp
    next
      case True
      define t1 where "t1 = t\<lparr>rows := rows t @ [ps]\<rparr>"
      define s1 where "s1 = s(''fortune500'' \<mapsto> t1)"
      have step: "insert_features accepts fmt (f # fs) s = insert_features accepts fmt fs s1"
        unfolding s1_def t1_def using Inr True Cons.prems by (rule insert_features_step)
      have p1: "s1 ''fortune500'' = Some t1" by (simp add: s1_def)
      have p2: "length (columns t1) = 8" using Cons.prems(2) by (simp add: t1_def)
      have ih: "insert_features accepts fmt fs s1 = Inr s' \<longleftrightarrow>
           (\<exists>rs. map (insert_params fmt) fs = map Inr rs \<and>
                 (list_all accepts rs \<and> s' = s1(''fortune500'' \<mapsto> t1\<lparr>rows := rows t1 @ rs\<rparr>)))"
        using p1 p2 by (rule Cons.IH)
      have upd: "s1(''fortune500'' \<mapsto> t1\<lparr>rows := rows t1 @ rs\<rparr>)
                 = s(''fortune500'' \<mapsto> t\<lparr>rows := rows t @ ps # rs\<rparr>)" for rs
        by (simp add: s1_def t1_def)
      show ?thesis
        unfolding step ih upd cons using True by simp
    qed
  qed
qed

lemma loader_statements_Inr:
  fixes db :: "'v store" and fmt :: "'n \<Rightarrow> string"
  shows "loader_statements accepts fmt fs db = Inr db' \<longleftrightarrow>
     (\<exists>rs. map (insert_params fmt) fs = map Inr rs \<and>
           (list_all accepts rs \<and>
            db' = db(''fortune500'' \<mapsto> \<lparr>columns = fortune500_columns, rows = rs\<rparr>)))"
proof -
  define t :: "'v table" where "t = \<lparr>columns = fortune500_columns, rows = []\<rparr>"
  define s where "s = db(''fortune500'' \<mapsto> t)"
  have run: "loader_statements accepts fmt fs db = insert_features accepts fmt fs s"
    by (simp add: loader_statements_def and_then_def cursor_execute_def s_def t_def)
  have p1: "s ''fortune500'' = Some t" by (simp add: s_def)
  have p2: "length (columns t) = 8" by (simp add: t_def fortune500_columns_def)
  have upd: "s(''fortune500'' \<mapsto> t\<lparr>rows := rows t @ rs\<rparr>)
             = db(''fortune500'' \<mapsto> \<lparr>columns = fortune500_columns, rows = rs\<rparr>)" for rs
    by (simp add: s_def t_def)
  have "insert_features accepts fmt fs s = Inr db' \<longleftrightarrow>
         (\<exists>rs. map (insert_params fmt) fs = map Inr rs \<and>
               (list_all accepts rs \<and> db' = s(''fortune500'' \<mapsto> t\<lparr>rows := rows t @ rs\<rparr>)))"
    using p1 p2 by (rule insert_features_Inr)
  then show ?thesis by (simp only: run upd)
qed

lemma loader_Completed:
  "loader accepts fmt fs db = (Completed, db') \<longleftrightarrow>
     (\<exists>rs. map (insert_params fmt) fs = map Inr rs \<and>
           (list_all accepts rs \<and>
            db' = db(''fortune500'' \<mapsto> \<lparr>columns = fortune500_columns, rows = rs\<rparr>)))"
proof -
  have "loader accepts fmt fs db = (Completed, db')
        \<longleftrightarrow> loader_statements accepts fmt fs db = Inr db'"
    by (cases "loader_statements accepts fmt fs db") (simp_all add: loader_def)
  then show ?thesis by (simp only: loader_statements_Inr)
qed

lemma all_geo_records:
  "list_all geo_record fs \<longleftrightarrow> (\<exists>rs. map (insert_params fmt) fs = map Inr rs)"
proof (induction fs)
  case Nil
  then show ?case by simp
next
  case (Cons f fs)
  show ?case
  proof
    assume "list_all geo_record (f # fs)"
    then have "geo_record f" "list_all geo_record fs" by simp_all
    then obtain ps rs where "insert_params fmt f = Inr ps" "map (insert_params fmt) fs = map Inr rs"
      using Cons.IH insert_params_geo_record [of f fmt] by blast
    then have "map (insert_params fmt) (f # fs) = map Inr (ps # rs)" by simp
    then show "\<exists>rs. map (insert_params fmt) (f # fs) = map Inr rs" ..
  next
    assume "\<exists>rs. map (insert_params fmt) (f # fs) = map Inr rs"
    then obtain rs' where h: "map (insert_params fmt) (f # fs) = map Inr rs'" ..
    then obtain r rs where "rs' = r # rs" by (cases rs') auto
    with h have "insert_params fmt f = Inr r" "map (insert_params fmt) fs = map Inr rs" by simp_all
    then have "geo_record f" "list_all geo_record fs"
      using Cons.IH insert_params_geo_record [of f fmt] by blast+
    then show "list_all geo_record (f # fs)" by simp
  qed
qed

lemma map_Inr_rows:
  assumes "map g fs = map Inr rs"
  shows "length rs = length fs" and "i < length fs \<Longrightarrow> g (fs ! i) = Inr (rs ! i)"
proof -
  from assms have "length (map g fs) = length (map Inr rs)" by simp
  then show l: "length rs = length fs" by simp
  assume i: "i < length fs"
  then have "g (fs ! i) = map g fs ! i" by simp
  also have "\<dots> = map Inr rs ! i" using assms by simp
  also have "\<dots> = Inr (rs ! i)" using i l by simp
  finally show "g (fs ! i) = Inr (rs ! i)" .
qed

lemma all_below_two: "(\<forall>i<length [a, b]. P i) \<longleftrightarrow> P 0 \<and> P (Suc 0)"
  by (auto simp add: less_Suc_eq)

lemma map_Inr_iff:
  "map g fs = map Inr rs \<and> list_all P rs
   \<longleftrightarrow> length rs = length fs \<and> (\<forall>i<length fs. g (fs ! i) = Inr (rs ! i) \<and> P (rs ! i))"
proof
  assume h: "map g fs = map Inr rs \<and> list_all P rs"
  then have l: "length rs = length fs" using map_Inr_rows(1) by blast
  moreover have "g (fs ! i) = Inr (rs ! i)" if "i < length fs" for i
    using h that map_Inr_rows(2) by blast
  moreover have "P (rs ! i)" if "i < length fs" for i
    using h that l by (simp add: list_all_length)
  ultimately show "length rs = length fs \<and> (\<forall>i<length fs. g (fs ! i) = Inr (rs ! i) \<and> P (rs ! i))"
    by blast
next
  assume h: "length rs = length fs \<and> (\<forall>i<length fs. g (fs ! i) = Inr (rs ! i) \<and> P (rs ! i))"
  then have "map g fs = map Inr rs" by (intro nth_equalityI) simp_all
  moreover have "list_all P rs" using h by (simp add: list_all_length)
  ultimately show "map g fs = map Inr rs \<and> list_all P rs" ..
qed

text \<open>
  A run that raises commits nothing, and the properties are looked up in the order of the
  source line, \<^verbatim>\<open>ZIP\<close> first.
\<close>

lemma loader_Raised_unchanged: "loader accepts fmt fs db = (Raised e, db') \<Longrightarrow> db' = db"
  by (cases "loader_statements accepts fmt fs db") (simp_all add: loader_def)

lemma insert_params_no_properties:
  "insert_params fmt \<lparr>coordinates = [lon, lat], properties = Map.empty\<rparr> = Inl (KeyError ''ZIP'')"
  by (simp add: insert_params_def and_then_def getitem_def)

lemma insert_params_three_coordinates:
  "insert_params fmt \<lparr>coordinates = [lon, lat, alt], properties = props\<rparr> = Inl UnpackError"
  by (simp add: insert_params_def)

section \<open>Facts about the Fetcher\<close>

text \<open>The four ways the download cell can go, each with the world it leaves.\<close>

lemma fetcher_skip:
  assumes "files w fpath = Some c"
  shows "fetcher e w =
         (Completed, print (py_repr fpath @ '' already exists: skipping download.'' @ [CHR 0x0A]) w)"
  using assms by (simp add: fetcher_def isfile_def)

lemma fetcher_download_error:
  assumes "files w fpath = None" "requests_get e url = None"
  shows "fetcher e w =
         (Raised DownloadError,
          (print (''Downloading data from '' @ py_repr url @ ''...'') w)
            \<lparr>requested := requested w @ [url]\<rparr>)"
  using assms by (simp add: fetcher_def isfile_def print_def Let_def)

lemma fetcher_write_error:
  assumes "files w fpath = None" "requests_get e url = Some r"
    "write_file e fpath (content r) \<noteq> Written"
  shows "fst (fetcher e w) = Raised WriteError
         \<and> requested (snd (fetcher e w)) = requested w @ [url]"
  using assms
  by (cases "write_file e fpath (content r)")
     (simp_all add: fetcher_def isfile_def print_def Let_def)

lemma fetcher_success:
  assumes "files w fpath = None" "requests_get e url = Some r"
    "write_file e fpath (content r) = Written"
  shows "fst (fetcher e w) = Completed
         \<and> files (snd (fetcher e w)) = (files w)(fpath \<mapsto> content r)
         \<and> requested (snd (fetcher e w)) = requested w @ [url]"
  using assms by (simp add: fetcher_def isfile_def print_def Let_def)

section \<open>The claims of the specification\<close>

subsection \<open>Projector\<close>

text \<open>
  Claim C1. For every longitude, \<^verbatim>\<open>lon_to_mercx\<close> returns the Earth radius constant
  6378137 times the longitude in radians. So planar-x is the longitude times the fixed
  slope \<open>6378137 \<cdot> \<pi> / 180\<close>, and the x computed for a point does not depend on the
  latitude of the point. This holds for every longitude, zero included.
\<close>

theorem lon_to_mercx_linear:
  "lon_to_mercx lon = EARTH_RADIUS * np_radians lon
   \<and> EARTH_RADIUS = 6378137
   \<and> lon_to_mercx lon = (6378137 * pi / 180) * lon
   \<and> wkt_to_x (\<lambda>pt. \<lparr>px = lon, py = lat\<rparr>) wkt = (6378137 * pi / 180) * lon"
  by (simp add: lon_to_mercx_def wkt_to_x_def np_radians_def EARTH_RADIUS_def)



text \<open>
  Claim C3. \<^verbatim>\<open>lat_to_mercy\<close> divides by the longitude as it is given. At longitude 0
  the result is not a finite number, for every latitude; for a latitude strictly between
  -90 and 90 degrees the tangent and the logarithm are defined, so there it is the division
  that fails. At a nonzero longitude the division never fails: the result is undefined only
  where the logarithm of the tangent already is, and it is defined for every latitude
  strictly between -90 and 90 degrees.
\<close>

theorem lat_to_mercy_zero_division:
  "lat_to_mercy 0 lat = None
   \<and> (- 90 < lat \<longrightarrow> lat < 90 \<longrightarrow> np_tan (pi / 4 + lat * (pi / 180) / 2) \<bind> np_log \<noteq> None)
   \<and> (lon \<noteq> 0 \<longrightarrow>
        (lat_to_mercy lon lat = None
           \<longleftrightarrow> np_tan (pi / 4 + lat * (pi / 180) / 2) \<bind> np_log = None))
   \<and> (lon \<noteq> 0 \<longrightarrow> - 90 < lat \<longrightarrow> lat < 90 \<longrightarrow> lat_to_mercy lon lat \<noteq> None)"
proof (intro conjI impI)
  show "lat_to_mercy 0 lat = None" by (rule lat_to_mercy_zero_lon)
next
  assume a: "- 90 < lat" "lat < 90"
  define t where "t = pi / 4 + lat * (pi / 180) / 2"
  have r: "0 < t" "t < pi / 2" using mercy_arg_range [OF a] by (simp_all add: t_def)
  have "np_tan t = Some (tan t)" "0 < tan t" using np_tan_in_range [OF r] by simp_all
  then have "np_tan t \<bind> np_log = Some (ln (tan t))" by (simp add: np_log_def)
  then show "np_tan (pi / 4 + lat * (pi / 180) / 2) \<bind> np_log \<noteq> None"
    by (simp add: t_def)
next
  assume "lon \<noteq> 0"
  then show "lat_to_mercy lon lat = None
           \<longleftrightarrow> np_tan (pi / 4 + lat * (pi / 180) / 2) \<bind> np_log = None"
    by (simp add: lat_to_mercy_def np_true_divide_def Let_def split: Option.bind_splits)
next
  assume "lon \<noteq> 0" "- 90 < lat" "lat < 90"
  then show "lat_to_mercy lon lat \<noteq> None" by (simp add: lat_to_mercy_value)
qed

theorem lat_to_mercy_zero_division_witness:
  "lat_to_mercy 0 45 = None \<and> lat_to_mercy 2 45 \<noteq> None
   \<and> np_tan (pi / 4 + 45 * (pi / 180) / 2) \<bind> np_log \<noteq> None"
  using lat_to_mercy_zero_division [of 45 2] by auto

text \<open>
  Claim C4. The specification has planar-y equal to 0 on the equator for every longitude.
  At longitude 0 the code computes \<open>0 / 0\<close>: the result is not a finite number, so it
  is not 0. (For a nonzero longitude the equator does map to 0, see
  \<open>equator_maps_to_zero\<close>.)
\<close>

theorem lat_to_mercy_equator_zero_lon: "lat_to_mercy 0 0 = None \<and> lat_to_mercy 0 0 \<noteq> Some 0"
  by (simp add: lat_to_mercy_zero_lon)




subsection \<open>Fetcher\<close>

text \<open>
  Claim C6. When the local path is already a file, a run of the Fetcher completes
  without asking the network (no URL is requested, and the run is the same whatever the
  network and the disk would have answered) and leaves every file as it was; a second run
  on the world the first one left does the same.
\<close>

theorem fetcher_skips_existing_file:
  assumes "files w fpath = Some c"
  shows "fst (fetcher e w) = Completed
       \<and> requested (snd (fetcher e w)) = requested w
       \<and> files (snd (fetcher e w)) = files w
       \<and> fetcher e' w = fetcher e w
       \<and> fst (fetcher e' (snd (fetcher e w))) = Completed
       \<and> requested (snd (fetcher e' (snd (fetcher e w)))) = requested w
       \<and> files (snd (fetcher e' (snd (fetcher e w)))) = files w"
proof -
  define msg where "msg = py_repr fpath @ '' already exists: skipping download.'' @ [CHR 0x0A]"
  have a: "fetcher e w = (Completed, print msg w)" "fetcher e' w = (Completed, print msg w)"
    unfolding msg_def by (rule fetcher_skip [OF assms])+
  have b: "files (print msg w) = files w" "requested (print msg w) = requested w"
    by (simp_all add: print_def)
  have "files (print msg w) fpath = Some c" using assms b by simp
  then have c: "fetcher e' (print msg w) = (Completed, print msg (print msg w))"
    unfolding msg_def by (rule fetcher_skip)
  have d: "files (print msg (print msg w)) = files w"
    "requested (print msg (print msg w)) = requested w"
    by (simp_all add: print_def)
  show ?thesis
    by (simp only: a c b d fst_conv snd_conv simp_thms)
qed

theorem fetcher_skips_existing_file_witness:
  "files \<lparr>files = [fpath \<mapsto> ''{}''], requested = [], stdout = []\<rparr> fpath = Some ''{}''
   \<and> fetcher \<lparr>requests_get = (\<lambda>u. Some \<lparr>content = ''new''\<rparr>), write_file = (\<lambda>p b. Written)\<rparr>
        \<lparr>files = [fpath \<mapsto> ''{}''], requested = [], stdout = []\<rparr>
      = (Completed,
         \<lparr>files = [fpath \<mapsto> ''{}''], requested = [],
          stdout = [py_repr fpath @ '' already exists: skipping download.'' @ [CHR 0x0A]]\<rparr>)"
  using fetcher_skips_existing_file
    [of "\<lparr>files = [fpath \<mapsto> ''{}''], requested = [], stdout = []\<rparr>" "''{}''"
        "\<lparr>requests_get = (\<lambda>u. Some \<lparr>content = ''new''\<rparr>), write_file = (\<lambda>p b. Written)\<rparr>"]
  by (simp add: fetcher_def isfile_def print_def)

text \<open>
  Claim C9. When the local path is not a file, the Fetcher asks the network exactly
  once. If the request raises, the run ends in a DownloadError and no file has changed. If
  the request returns and opening or writing the file raises, the run ends in a WriteError.
  Otherwise the run completes and the local path holds the whole body of the response. In
  the two failing cases the error leaves the cell, and nothing is tried a second time.
\<close>

theorem fetcher_errors:
  assumes "files w fpath = None"
  shows "(requests_get e url = None \<longrightarrow>
            fst (fetcher e w) = Raised DownloadError
            \<and> files (snd (fetcher e w)) = files w
            \<and> requested (snd (fetcher e w)) = requested w @ [url])
       \<and> (\<forall>r. requests_get e url = Some r \<longrightarrow> write_file e fpath (content r) \<noteq> Written \<longrightarrow>
            fst (fetcher e w) = Raised WriteError
            \<and> requested (snd (fetcher e w)) = requested w @ [url])
       \<and> (\<forall>r. requests_get e url = Some r \<longrightarrow> write_file e fpath (content r) = Written \<longrightarrow>
            fst (fetcher e w) = Completed
            \<and> files (snd (fetcher e w)) = (files w)(fpath \<mapsto> content r)
            \<and> requested (snd (fetcher e w)) = requested w @ [url])"
proof (intro conjI allI impI)
  assume "requests_get e url = None"
  from fetcher_download_error [OF assms this]
  show "fst (fetcher e w) = Raised DownloadError" "files (snd (fetcher e w)) = files w"
    "requested (snd (fetcher e w)) = requested w @ [url]"
    by (simp_all add: print_def)
next
  fix r assume "requests_get e url = Some r" "write_file e fpath (content r) \<noteq> Written"
  from fetcher_write_error [OF assms this]
  show "fst (fetcher e w) = Raised WriteError"
    "requested (snd (fetcher e w)) = requested w @ [url]" by simp_all
next
  fix r assume "requests_get e url = Some r" "write_file e fpath (content r) = Written"
  from fetcher_success [OF assms this]
  show "fst (fetcher e w) = Completed"
    "files (snd (fetcher e w)) = (files w)(fpath \<mapsto> content r)"
    "requested (snd (fetcher e w)) = requested w @ [url]" by simp_all
qed

theorem fetcher_errors_witness:
  "files \<lparr>files = Map.empty, requested = [], stdout = []\<rparr> fpath = None
   \<and> fst (fetcher \<lparr>requests_get = (\<lambda>u. None), write_file = (\<lambda>p b. Written)\<rparr>
            \<lparr>files = Map.empty, requested = [], stdout = []\<rparr>) = Raised DownloadError
   \<and> fst (fetcher \<lparr>requests_get = (\<lambda>u. Some \<lparr>content = ''{}''\<rparr>),
                    write_file = (\<lambda>p b. WriteRaises [])\<rparr>
            \<lparr>files = Map.empty, requested = [], stdout = []\<rparr>) = Raised WriteError
   \<and> fst (fetcher \<lparr>requests_get = (\<lambda>u. Some \<lparr>content = ''{}''\<rparr>),
                    write_file = (\<lambda>p b. OpenRaises)\<rparr>
            \<lparr>files = Map.empty, requested = [], stdout = []\<rparr>) = Raised WriteError
   \<and> fetcher \<lparr>requests_get = (\<lambda>u. Some \<lparr>content = ''{}''\<rparr>), write_file = (\<lambda>p b. Written)\<rparr>
        \<lparr>files = Map.empty, requested = [], stdout = []\<rparr>
      = (Completed,
         \<lparr>files = [fpath \<mapsto> ''{}''], requested = [url],
          stdout = [''Downloading data from '' @ py_repr url @ ''...'', ''Writing data...'',
                    ''Success: '' @ py_repr fpath @ [CHR 0x0A]]\<rparr>)"
  using
    fetcher_errors [of "\<lparr>files = Map.empty, requested = [], stdout = []\<rparr>"
                       "\<lparr>requests_get = (\<lambda>u. None), write_file = (\<lambda>p b. Written)\<rparr>"]
    fetcher_errors [of "\<lparr>files = Map.empty, requested = [], stdout = []\<rparr>"
                       "\<lparr>requests_get = (\<lambda>u. Some \<lparr>content = ''{}''\<rparr>),
                         write_file = (\<lambda>p b. WriteRaises [])\<rparr>"]
    fetcher_errors [of "\<lparr>files = Map.empty, requested = [], stdout = []\<rparr>"
                       "\<lparr>requests_get = (\<lambda>u. Some \<lparr>content = ''{}''\<rparr>),
                         write_file = (\<lambda>p b. OpenRaises)\<rparr>"]
    fetcher_errors [of "\<lparr>files = Map.empty, requested = [], stdout = []\<rparr>"
                       "\<lparr>requests_get = (\<lambda>u. Some \<lparr>content = ''{}''\<rparr>),
                         write_file = (\<lambda>p b. Written)\<rparr>"]
  by (simp add: fetcher_def isfile_def print_def)

subsection \<open>Loader\<close>

text \<open>
  Claim C7. The Loader replaces the table. After a run that completed, the table
  \<^verbatim>\<open>fortune500\<close> has the declared columns and as many rows as there are features,
  whatever table of that name was there before, and a second run on the same features
  leaves the database exactly as the first one did.
\<close>

theorem loader_replaces_table:
  assumes "loader accepts fmt fs db = (Completed, db1)"
  shows "loader accepts fmt fs db1 = (Completed, db1)
       \<and> (\<exists>rs. db1 = db(''fortune500'' \<mapsto> \<lparr>columns = fortune500_columns, rows = rs\<rparr>)
               \<and> length rs = length fs)"
proof -
  from assms obtain rs where rs: "map (insert_params fmt) fs = map Inr rs"
    and ok: "list_all accepts rs"
    and db1: "db1 = db(''fortune500'' \<mapsto> \<lparr>columns = fortune500_columns, rows = rs\<rparr>)"
    unfolding loader_Completed by blast
  have "db1(''fortune500'' \<mapsto> \<lparr>columns = fortune500_columns, rows = rs\<rparr>) = db1"
    by (simp add: db1)
  with rs ok have "\<exists>rs. map (insert_params fmt) fs = map Inr rs \<and>
        (list_all accepts rs \<and>
         db1 = db1(''fortune500'' \<mapsto> \<lparr>columns = fortune500_columns, rows = rs\<rparr>))"
    by metis
  then have "loader accepts fmt fs db1 = (Completed, db1)" by (simp only: loader_Completed)
  moreover have "length rs = length fs" using rs by (rule map_Inr_rows(1))
  ultimately show ?thesis using db1 by blast
qed

theorem loader_replaces_table_witness:
  "loader psycopg2_adapts (\<lambda>x. x) [chicago, bentonville] stale_db = (Completed, loaded_db)
   \<and> loader psycopg2_adapts (\<lambda>x. x) [chicago, bentonville] loaded_db = (Completed, loaded_db)
   \<and> (\<exists>rs. loaded_db = stale_db(''fortune500'' \<mapsto> \<lparr>columns = fortune500_columns, rows = rs\<rparr>)
           \<and> length rs = length [chicago, bentonville])"
proof -
  have h: "loader psycopg2_adapts (\<lambda>x. x) [chicago, bentonville] stale_db = (Completed, loaded_db)"
    by (simp add: loader_def loader_statements_def and_then_def cursor_execute_def
        insert_params_def getitem_def chicago_def bentonville_def
        psycopg2_adapts_def text_without_nul_def
        stale_db_def loaded_db_def fortune500_columns_def chicago_row_def bentonville_row_def)
  show ?thesis using h loader_replaces_table [OF h] by simp
qed

text \<open>
  Claim C8. The Loader is said to insert exactly one row per GeoRecord for every input
  collection. It does not when the store refuses a value: of two GeoRecords, the second
  with a NUL character in its name, psycopg2 refuses the second tuple, the run raises, and
  nothing is committed, the first row included.
\<close>

theorem loader_refuses_geo_record:
  "list_all geo_record [bentonville, chicago_nul]
   \<and> loader psycopg2_adapts (\<lambda>x. x) [bentonville, chicago_nul] stale_db
       = (Raised (StoreError ValueRefused), stale_db)"
  by (simp add: geo_record_def loader_def loader_statements_def and_then_def cursor_execute_def
      insert_params_def getitem_def chicago_def chicago_nul_def bentonville_def
      psycopg2_adapts_def text_without_nul_def fortune500_columns_def)

text \<open>
  Claim C8, amended. The Loader completes exactly when every feature has a coordinate pair
  and the seven properties and the store takes the tuple made of it. The table then holds
  exactly one row per feature, in the order of the features: row i is the tuple made of
  feature i, its geometry text from the feature's coordinate pair and its seven values
  from the feature's properties. (A run that does not complete commits nothing.)
\<close>

theorem loader_one_row_per_feature:
  "loader accepts fmt fs db = (Completed, db') \<longleftrightarrow>
     (\<exists>rs. db' = db(''fortune500'' \<mapsto> \<lparr>columns = fortune500_columns, rows = rs\<rparr>)
          \<and> length rs = length fs
          \<and> (\<forall>i<length fs.
               (\<exists>lon lat zip_code state name address county city directions.
                  coordinates (fs ! i) = [lon, lat] \<and>
                  properties (fs ! i) ''ZIP'' = Some zip_code \<and>
                  properties (fs ! i) ''STATE'' = Some state \<and>
                  properties (fs ! i) ''NAME'' = Some name \<and>
                  properties (fs ! i) ''ADDRESS'' = Some address \<and>
                  properties (fs ! i) ''COUNTY'' = Some county \<and>
                  properties (fs ! i) ''CITY'' = Some city \<and>
                  properties (fs ! i) ''DIRECTIONS'' = Some directions \<and>
                  rs ! i = [GeomFromText (''SRID=4326;POINT('' @ fmt lon @ '' '' @ fmt lat @ '')''),
                            Param name, Param address, Param city, Param state, Param zip_code,
                            Param county, Param directions])
               \<and> accepts (rs ! i)))"
proof -
  have "loader accepts fmt fs db = (Completed, db') \<longleftrightarrow>
     (\<exists>rs. (map (insert_params fmt) fs = map Inr rs \<and> list_all accepts rs) \<and>
           db' = db(''fortune500'' \<mapsto> \<lparr>columns = fortune500_columns, rows = rs\<rparr>))"
    unfolding loader_Completed by blast
  also have "\<dots> \<longleftrightarrow>
     (\<exists>rs. db' = db(''fortune500'' \<mapsto> \<lparr>columns = fortune500_columns, rows = rs\<rparr>)
          \<and> length rs = length fs
          \<and> (\<forall>i<length fs. insert_params fmt (fs ! i) = Inr (rs ! i) \<and> accepts (rs ! i)))"
    unfolding map_Inr_iff by blast
  finally show ?thesis unfolding insert_params_Inr .
qed

theorem loader_one_row_per_feature_witness:
  "loader psycopg2_adapts (\<lambda>x. x) [bentonville, chicago] Map.empty
   = (Completed,
      [''fortune500'' \<mapsto>
         \<lparr>columns = fortune500_columns, rows = [bentonville_row, chicago_row]\<rparr>])"
proof -
  have "\<forall>i<length [bentonville, chicago].
               (\<exists>lon lat zip_code state name address county city directions.
                  coordinates ([bentonville, chicago] ! i) = [lon, lat] \<and>
                  properties ([bentonville, chicago] ! i) ''ZIP'' = Some zip_code \<and>
                  properties ([bentonville, chicago] ! i) ''STATE'' = Some state \<and>
                  properties ([bentonville, chicago] ! i) ''NAME'' = Some name \<and>
                  properties ([bentonville, chicago] ! i) ''ADDRESS'' = Some address \<and>
                  properties ([bentonville, chicago] ! i) ''COUNTY'' = Some county \<and>
                  properties ([bentonville, chicago] ! i) ''CITY'' = Some city \<and>
                  properties ([bentonville, chicago] ! i) ''DIRECTIONS'' = Some directions \<and>
                  [bentonville_row, chicago_row] ! i
                    = [GeomFromText (''SRID=4326;POINT('' @ lon @ '' '' @ lat @ '')''),
                       Param name, Param address, Param city, Param state, Param zip_code,
                       Param county, Param directions])
               \<and> psycopg2_adapts ([bentonville_row, chicago_row] ! i)"
    by (simp only: all_below_two nth_Cons_0 nth_Cons_Suc)
       (simp add: chicago_def bentonville_def chicago_row_def bentonville_row_def
        psycopg2_adapts_def text_without_nul_def)
  then have "\<exists>rs. [''fortune500'' \<mapsto>
                     \<lparr>columns = fortune500_columns, rows = [bentonville_row, chicago_row]\<rparr>]
                   = Map.empty(''fortune500'' \<mapsto> \<lparr>columns = fortune500_columns, rows = rs\<rparr>)
          \<and> length rs = length [bentonville, chicago]
          \<and> (\<forall>i<length [bentonville, chicago].
               (\<exists>lon lat zip_code state name address county city directions.
                  coordinates ([bentonville, chicago] ! i) = [lon, lat] \<and>
                  properties ([bentonville, chicago] ! i) ''ZIP'' = Some zip_code \<and>
                  properties ([bentonville, chicago] ! i) ''STATE'' = Some state \<and>
                  properties ([bentonville, chicago] ! i) ''NAME'' = Some name \<and>
                  properties ([bentonville, chicago] ! i) ''ADDRESS'' = Some address \<and>
                  properties ([bentonville, chicago] ! i) ''COUNTY'' = Some county \<and>
                  properties ([bentonville, chicago] ! i) ''CITY'' = Some city \<and>
                  properties ([bentonville, chicago] ! i) ''DIRECTIONS'' = Some directions \<and>
                  rs ! i = [GeomFromText (''SRID=4326;POINT('' @ (\<lambda>x. x) lon @ '' '' @ (\<lambda>x. x) lat @ '')''),
                            Param name, Param address, Param city, Param state, Param zip_code,
                            Param county, Param directions])
               \<and> psycopg2_adapts (rs ! i))"
    by (intro exI [of _ "[bentonville_row, chicago_row]"]) simp
  then show ?thesis by (rule loader_one_row_per_feature [THEN iffD2])
qed

text \<open>
  Claim C10. After a run that completed, the row made of the i-th feature has under the
  columns name, address, city, state, zip_code, county and directions the values of the
  feature's properties NAME, ADDRESS, CITY, STATE, ZIP, COUNTY and DIRECTIONS, and under
  location the geometry read from the text \<^verbatim>\<open>SRID=4326;POINT(lon lat)\<close>, where
  \<open>[lon, lat]\<close> is the feature's coordinate pair.
\<close>

theorem loader_columns_by_name:
  assumes "loader accepts fmt fs db = (Completed, db')" and "i < length fs"
  shows "\<exists>t lon lat zip_code state name address county city directions.
           db' ''fortune500'' = Some t
         \<and> coordinates (fs ! i) = [lon, lat]
         \<and> properties (fs ! i) ''ZIP'' = Some zip_code
         \<and> properties (fs ! i) ''STATE'' = Some state
         \<and> properties (fs ! i) ''NAME'' = Some name
         \<and> properties (fs ! i) ''ADDRESS'' = Some address
         \<and> properties (fs ! i) ''COUNTY'' = Some county
         \<and> properties (fs ! i) ''CITY'' = Some city
         \<and> properties (fs ! i) ''DIRECTIONS'' = Some directions
         \<and> column_value t i ''location''
             = Some (GeomFromText (''SRID=4326;POINT('' @ fmt lon @ '' '' @ fmt lat @ '')''))
         \<and> column_value t i ''name'' = Some (Param name)
         \<and> column_value t i ''address'' = Some (Param address)
         \<and> column_value t i ''city'' = Some (Param city)
         \<and> column_value t i ''state'' = Some (Param state)
         \<and> column_value t i ''zip_code'' = Some (Param zip_code)
         \<and> column_value t i ''county'' = Some (Param county)
         \<and> column_value t i ''directions'' = Some (Param directions)"
proof -
  from assms(1) obtain rs where rs: "map (insert_params fmt) fs = map Inr rs"
    and db': "db' = db(''fortune500'' \<mapsto> \<lparr>columns = fortune500_columns, rows = rs\<rparr>)"
    unfolding loader_Completed by blast
  define t where "t = \<lparr>columns = fortune500_columns, rows = rs\<rparr>"
  have len: "i < length rs" using map_Inr_rows(1) [OF rs] assms(2) by simp
  have "insert_params fmt (fs ! i) = Inr (rs ! i)" using rs assms(2) by (rule map_Inr_rows(2))
  then obtain lon lat zip_code state name address county city directions where
    f: "coordinates (fs ! i) = [lon, lat]"
       "properties (fs ! i) ''ZIP'' = Some zip_code" "properties (fs ! i) ''STATE'' = Some state"
       "properties (fs ! i) ''NAME'' = Some name" "properties (fs ! i) ''ADDRESS'' = Some address"
       "properties (fs ! i) ''COUNTY'' = Some county" "properties (fs ! i) ''CITY'' = Some city"
       "properties (fs ! i) ''DIRECTIONS'' = Some directions"
    and r: "rs ! i = [GeomFromText (''SRID=4326;POINT('' @ fmt lon @ '' '' @ fmt lat @ '')''),
              Param name, Param address, Param city, Param state, Param zip_code,
              Param county, Param directions]"
    unfolding insert_params_Inr by blast
  have t: "db' ''fortune500'' = Some t" by (simp add: db' t_def)
  have c: "column_value t i ''location''
             = Some (GeomFromText (''SRID=4326;POINT('' @ fmt lon @ '' '' @ fmt lat @ '')''))"
    "column_value t i ''name'' = Some (Param name)"
    "column_value t i ''address'' = Some (Param address)"
    "column_value t i ''city'' = Some (Param city)"
    "column_value t i ''state'' = Some (Param state)"
    "column_value t i ''zip_code'' = Some (Param zip_code)"
    "column_value t i ''county'' = Some (Param county)"
    "column_value t i ''directions'' = Some (Param directions)"
    using len r by (simp_all add: column_value_def t_def fortune500_columns_def)
  show ?thesis
    using t f c by blast
qed

theorem loader_columns_by_name_witness:
  "loader psycopg2_adapts (\<lambda>x. x) [chicago, bentonville] Map.empty = (Completed, loaded_db)
   \<and> 1 < length [chicago, bentonville]
   \<and> (\<exists>t. loaded_db ''fortune500'' = Some t
        \<and> column_value t 1 ''location'' = Some (GeomFromText ''SRID=4326;POINT(-94.2088 36.3729)'')
        \<and> column_value t 1 ''name'' = Some (Param ''WALMART'')
        \<and> column_value t 1 ''address'' = Some (Param ''702 SW 8TH ST'')
        \<and> column_value t 1 ''city'' = Some (Param ''BENTONVILLE'')
        \<and> column_value t 1 ''state'' = Some (Param ''AR'')
        \<and> column_value t 1 ''zip_code'' = Some (Param ''72716'')
        \<and> column_value t 1 ''county'' = Some (Param ''BENTON'')
        \<and> column_value t 1 ''directions'' = Some (Param ''NOT AVAILABLE''))"
proof -
  have h: "loader psycopg2_adapts (\<lambda>x. x) [chicago, bentonville] Map.empty = (Completed, loaded_db)"
    by (simp add: loader_def loader_statements_def and_then_def cursor_execute_def
        insert_params_def getitem_def chicago_def bentonville_def
        psycopg2_adapts_def text_without_nul_def
        loaded_db_def fortune500_columns_def chicago_row_def bentonville_row_def)
  have i: "1 < length [chicago, bentonville]" by simp
  from loader_columns_by_name [OF h i]
  show ?thesis using h by (simp add: bentonville_def)
qed

end
